theory Spec2Isabelle
  imports Main
begin

section \<open>Python values and exceptions\<close>

text \<open>
  The payloads the client moves around are what \<open>json.loads\<close> produces and what route
  handlers return. \<open>PObject tn tb\<close> stands for any Python object outside JSON: \<open>tn\<close> is its
  type name and \<open>tb\<close> the text \<open>traceback.format_exception\<close> yields for the
  \<open>TypeError\<close> that \<open>json.dumps\<close> raises on it. Floats are left out: no branch of the
  client inspects one.
\<close>

datatype pyval =
    PNone
  | PBool bool
  | PInt int
  | PStr string
  | PList "pyval list"
  | PDict "(string \<times> pyval) list"
  | PObject string string

text \<open>Python truthiness, as used by \<open>if message.data:\<close>.\<close>

fun truthy :: "pyval \<Rightarrow> bool" where
  "truthy PNone = False"
| "truthy (PBool b) = b"
| "truthy (PInt i) = (i \<noteq> 0)"
| "truthy (PStr s) = (s \<noteq> [])"
| "truthy (PList xs) = (xs \<noteq> [])"
| "truthy (PDict kvs) = (kvs \<noteq> [])"
| "truthy (PObject tn tb) = True"

text \<open>
  An exception object raised by user code or by the JSON encoder: whether its class derives
  from \<open>Exception\<close> (and not only from \<open>BaseException\<close>), the text \<open>str(error)\<close>, and the
  text \<open>''.join(traceback.format_exception(type(error), error, error.__traceback__))\<close>.
\<close>

datatype raised = Raised (is_Exception: bool) (exn_str: string) (exn_traceback: string)

text \<open>The exceptions of \<open>winerp.lib.errors\<close>, of the interpreter and of asyncio/websockets
  that the client raises or lets through.\<close>

datatype error =
    ClientNotReadyError string
  | UnauthorizedError string
  | ValueError string
  | InvalidRouteType string
  | ConnectionError string
  | MissingUUIDError string
  | UUIDNotFoundError string
  | CheckFailureError string
  | ClientRuntimeError pyval
  | NameError string
  | TypeError string
  | KeyError
  | AttributeError
  | JSONDecodeError
  | TimeoutError
  | CancelledError
  | InvalidStateError
  | ConnectionClosedError
  | ConnectionClosedOK
  | OSError
  | Propagated raised

text \<open>\<open>json.dumps(v)\<close>: \<open>None\<close> when \<open>v\<close> encodes, otherwise the \<open>TypeError\<close> of the first
  object the encoder cannot handle, in traversal order.\<close>

fun first_some :: "'a option list \<Rightarrow> 'a option" where
  "first_some [] = None"
| "first_some (None # xs) = first_some xs"
| "first_some (Some x # xs) = Some x"

fun json_dumps :: "pyval \<Rightarrow> raised option" where
  "json_dumps PNone = None"
| "json_dumps (PBool b) = None"
| "json_dumps (PInt i) = None"
| "json_dumps (PStr s) = None"
| "json_dumps (PList xs) = first_some (map json_dumps xs)"
| "json_dumps (PDict kvs) = first_some (map (\<lambda>kv. json_dumps (snd kv)) kvs)"
| "json_dumps (PObject tn tb) =
     Some (Raised True (''Object of type '' @ tn @ '' is not JSON serializable'') tb)"

section \<open>Envelopes\<close>

text \<open>
  Modelled from the spec: \<open>Payloads\<close> of \<open>winerp/lib/payload.py\<close>, which is not among the
  sources. It enumerates the kinds of envelope: the kinds of the spec's data model and the
  \<open>success\<close> kind that \<open>Client.__on_message\<close> tests. The flags \<open>message.type.success\<close>,
  \<open>message.type.ping\<close>, ... of a received message hold for exactly one kind each.
\<close>

datatype payloads =
    P_success
  | P_verification
  | P_request
  | P_response
  | P_error
  | P_ping
  | P_information

text \<open>The \<open>route\<close> field: absent, a route name, or (Information) a list of names.\<close>

datatype route_field = Route_none | Route_name string | Route_list "string list"

text \<open>
  Modelled from the spec: \<open>WsMessage\<close> of \<open>winerp/lib/message.py\<close> and \<open>MessagePayload\<close> of
  \<open>winerp/lib/payload.py\<close>, which are not among the sources. Both carry the fields of the
  spec's Envelope, under the names the client uses (\<open>type\<close>, \<open>id\<close>, \<open>destination\<close>,
  \<open>route\<close>, \<open>data\<close>, \<open>uuid\<close>, \<open>traceback\<close>), so one record serves both.
\<close>

record envelope =
  env_type :: payloads
  env_id :: "string option"
  env_destination :: "string option"
  env_route :: route_field
  env_data :: pyval
  env_uuid :: "string option"
  env_traceback :: "string option"

text \<open>
  Modelled from the spec: the constructor \<open>MessagePayload(type = t, ...)\<close>; a field it is not
  given is absent (\<open>None\<close>). The further keyword arguments are written as record updates.
\<close>

definition MessagePayload :: "payloads \<Rightarrow> envelope" where
  "MessagePayload t =
     \<lparr>env_type = t, env_id = None, env_destination = None, env_route = Route_none,
      env_data = PNone, env_uuid = None, env_traceback = None\<rparr>"

text \<open>
  Modelled from the spec: \<open>MessagePayload().from_message(message)\<close>, the payload from which
  the Request Invoker builds its reply. By the spec (4.4) the reply echoes the correlation
  id of the request and goes back to the requester, and \<open>_fulfill_request\<close> itself sets
  neither field: the payload takes over the fields of the message and is addressed to its
  sender.
\<close>

definition from_message :: "envelope \<Rightarrow> envelope" where
  "from_message msg = msg\<lparr>env_destination := env_id msg\<rparr>"

section \<open>The client object\<close>

text \<open>A coroutine function handed to \<open>route\<close> or \<open>event\<close>: its \<open>__name__\<close>, what
  \<open>asyncio.iscoroutinefunction\<close> says of it, whether a call with a given number of
  positional arguments fits its parameters, and the outcome of \<open>await func(**data)\<close>
  (a \<open>TypeError\<close> for data that is no mapping or does not fit the signature is one of the
  outcomes \<open>Raises\<close>). Handlers are taken to leave the client object alone.\<close>

datatype outcome = Returns pyval | Raises raised

record func =
  fn_name :: string
  fn_is_coro :: bool
  fn_accepts :: "nat \<Rightarrow> bool"
  fn_call :: "pyval \<Rightarrow> outcome"

text \<open>The state of the websocket connection object (\<open>open\<close> and \<open>closed\<close> are its
  properties).\<close>

datatype ws_state = CONNECTING | OPEN | CLOSING | CLOSED

text \<open>An \<open>asyncio.Future\<close>.\<close>

datatype future = Pending | Result pyval | Exception error | Cancelled

text \<open>An argument of a lifecycle notification.\<close>

datatype arg = Arg_val pyval | Arg_id "string option" | Arg_exn raised

text \<open>What \<open>loop.create_task\<close> was given.\<close>

datatype task =
    Task_send envelope
  | Task_event string "func option" "arg list"
  | Task_dispatch envelope
  | Task_fulfill envelope
  | Task_on_message

text \<open>
  The fields of \<open>Client\<close>, followed by the part of the environment it acts on:
  \<open>futures\<close> is the heap of futures made by \<open>loop.create_future()\<close> (a future is its
  index), \<open>tasks\<close> the log of \<open>loop.create_task\<close> calls in order, \<open>sent\<close> the frames
  written by \<open>websocket.send\<close> in order. \<open>listeners\<close> is a dict whose insertion order
  \<open>_dispatch\<close> iterates, hence an association list.
\<close>

record client =
  local_name :: string
  websocket :: "ws_state option"
  routes :: "string \<rightharpoonup> func"
  listeners :: "(string \<times> ((pyval \<Rightarrow> bool) option \<times> nat)) list"
  authorized :: bool
  on_hold :: bool
  events :: "string \<rightharpoonup> func option"
  futures :: "future list"
  tasks :: "task list"
  sent :: "envelope list"

definition init_events :: "string \<rightharpoonup> func option" where
  "init_events =
     [''on_winerp_connect'' \<mapsto> None, ''on_winerp_ready'' \<mapsto> None,
      ''on_winerp_disconnect'' \<mapsto> None, ''on_winerp_request'' \<mapsto> None,
      ''on_winerp_response'' \<mapsto> None, ''on_winerp_information'' \<mapsto> None,
      ''on_winerp_error'' \<mapsto> None]"

text \<open>\<open>Client.__init__\<close>.\<close>

definition init :: "string \<Rightarrow> client" where
  "init name =
     \<lparr>local_name = name, websocket = None, routes = Map.empty, listeners = [],
      authorized = False, on_hold = False, events = init_events,
      futures = [], tasks = [], sent = []\<rparr>"

text \<open>\<open>Client.get_event\<close>: the registered handler, or \<open>None\<close> for \<open>__empty_event\<close>.\<close>

definition get_event :: "client \<Rightarrow> string \<Rightarrow> func option" where
  "get_event s key = (case events s key of Some (Some f) \<Rightarrow> Some f | _ \<Rightarrow> None)"

definition create_task :: "task \<Rightarrow> client \<Rightarrow> client" where
  "create_task t s = s\<lparr>tasks := tasks s @ [t]\<rparr>"

text \<open>Whether the call \<open>self.get_event(key)(...)\<close> with \<open>n\<close> arguments yields a coroutine:
  \<open>__empty_event(*args, **kwargs)\<close> takes any arguments, a registered handler those that
  fit its parameters (\<open>event\<close> checks its name and that it is a coroutine function, not
  its parameters).\<close>

definition accepts_call :: "client \<Rightarrow> string \<Rightarrow> nat \<Rightarrow> bool" where
  "accepts_call s key n = (case get_event s key of None \<Rightarrow> True | Some f \<Rightarrow> fn_accepts f n)"

text \<open>\<open>self.loop.create_task(self.get_event(key)(...))\<close>: the handler is called first; a
  call that does not fit its parameters raises \<open>TypeError\<close> there (with the interpreter's
  text, shortened here) and no task is created.\<close>

definition fire :: "string \<Rightarrow> arg list \<Rightarrow> client \<Rightarrow> error option \<times> client" where
  "fire key args s =
     (if accepts_call s key (length args)
      then (None, create_task (Task_event key (get_event s key) args) s)
      else (Some (TypeError (key @ ''() does not take the arguments given'')), s))"

text \<open>\<open>Client.send_message\<close>: \<open>await self.websocket.send(json.dumps(data))\<close>.\<close>

definition send_message :: "client \<Rightarrow> envelope \<Rightarrow> error option \<times> client" where
  "send_message s data =
     (case websocket s of
        None \<Rightarrow> (Some AttributeError, s)
      | Some ws \<Rightarrow>
          (case json_dumps (env_data data) of
             Some e \<Rightarrow> (Some (Propagated e), s)
           | None \<Rightarrow>
               if ws = OPEN then (None, s\<lparr>sent := sent s @ [data]\<rparr>)
               else (Some ConnectionClosedError, s)))"

text \<open>\<open>Client.__send_message\<close>: the send becomes a task of its own.\<close>

definition send_message_task :: "client \<Rightarrow> envelope \<Rightarrow> client" where
  "send_message_task s data = create_task (Task_send data) s"

section \<open>Registration\<close>

text \<open>\<open>Client.route(name)(func)\<close>. \<open>name or func.__name__\<close> falls back to the handler's
  name for \<open>None\<close> and for the empty string.\<close>

definition route_key :: "string option \<Rightarrow> func \<Rightarrow> string" where
  "route_key name f = (case name of None \<Rightarrow> fn_name f | Some n \<Rightarrow> if n = [] then fn_name f else n)"

definition route :: "client \<Rightarrow> string option \<Rightarrow> func \<Rightarrow> error option \<times> client" where
  "route s name f =
     (if (case name of None \<Rightarrow> routes s (fn_name f) \<noteq> None
                     | Some n \<Rightarrow> routes s n \<noteq> None)
      then (Some (ValueError ''Route name already exists!''), s)
      else if \<not> fn_is_coro f
      then (Some (InvalidRouteType ''Route function must be a coro.''), s)
      else (None, s\<lparr>routes := (routes s)(route_key name f \<mapsto> f)\<rparr>))"

text \<open>\<open>Client.event(func)\<close>.\<close>

definition event :: "client \<Rightarrow> func \<Rightarrow> error option \<times> client" where
  "event s f =
     (if events s (fn_name f) = None then (Some (NameError ''Invalid winerp event''), s)
      else if \<not> fn_is_coro f then (Some (TypeError ''Event function must be a coro.''), s)
      else (None, s\<lparr>events := (events s)(fn_name f \<mapsto> Some f)\<rparr>))"

section \<open>Outbound operations\<close>

text \<open>Assignment \<open>d[k] = v\<close> on a dict kept in insertion order.\<close>

fun dict_set :: "('k \<times> 'v) list \<Rightarrow> 'k \<Rightarrow> 'v \<Rightarrow> ('k \<times> 'v) list" where
  "dict_set [] k v = [(k, v)]"
| "dict_set ((k', v') # kvs) k v =
     (if k' = k then (k', v) # kvs else (k', v') # dict_set kvs k v)"

text \<open>\<open>Client.__get_response\<close> up to the point where the caller suspends: a new future,
  stored under \<open>_uuid\<close> with no acceptance check. The value is the future awaited.\<close>

definition get_response :: "client \<Rightarrow> string \<Rightarrow> nat \<times> client" where
  "get_response s uuid =
     (let future = length (futures s)
      in (future, s\<lparr>futures := futures s @ [Pending],
                     listeners := dict_set (listeners s) uuid (None, future)\<rparr>))"

text \<open>
  The caller's resumption from \<open>await asyncio.wait_for(future, timeout)\<close>. It is resumed
  when the future is done, or when the timeout has elapsed with the future still pending;
  in the latter case asyncio cancels the future and raises \<open>TimeoutError\<close>. The client
  has no \<open>try\<close> around the \<open>await\<close> and runs no code of its own at that point. (An
  index outside the heap is no future of this loop and is treated like a done future
  without a result. The call passes \<open>loop\<close>, which asyncio accepts up to Python 3.9.)
\<close>

definition wait_for :: "client \<Rightarrow> nat \<Rightarrow> (error + pyval) \<times> client" where
  "wait_for s future =
     (if future < length (futures s) then
        (case futures s ! future of
           Result v \<Rightarrow> (Inr v, s)
         | Exception e \<Rightarrow> (Inl e, s)
         | Cancelled \<Rightarrow> (Inl CancelledError, s)
         | Pending \<Rightarrow> (Inl TimeoutError, s\<lparr>futures := (futures s)[future := Cancelled]\<rparr>))
      else (Inl InvalidStateError, s))"

text \<open>\<open>resp.get(key, default)\<close>: only a dict has the method.\<close>

definition py_get :: "pyval \<Rightarrow> string \<Rightarrow> pyval \<Rightarrow> error + pyval" where
  "py_get resp key dflt =
     (case resp of
        PDict kvs \<Rightarrow> (case map_of kvs key of Some v \<Rightarrow> Inr v | None \<Rightarrow> Inr dflt)
      | _ \<Rightarrow> Inl AttributeError)"

text \<open>\<open>Client.ping\<close> up to its suspension in \<open>__get_response\<close>; \<open>uuid\<close> is the value of
  \<open>str(uuid.uuid4())\<close>.\<close>

definition ping :: "client \<Rightarrow> string option \<Rightarrow> string \<Rightarrow> (error + nat) \<times> client" where
  "ping s cl uuid =
     (if on_hold s \<or> websocket s = None \<or> websocket s \<noteq> Some OPEN
      then (Inl (ClientNotReadyError
                  ''The client is currently not ready to send or accept requests.''), s)
      else if \<not> authorized s
      then (Inl (UnauthorizedError ''Client is not authorized!''), s)
      else
        (let payload = (MessagePayload P_ping)
               \<lparr>env_id := Some (local_name s), env_destination := cl, env_uuid := Some uuid\<rparr>
         in case send_message s payload of
              (Some e, s') \<Rightarrow> (Inl e, s')
            | (None, s') \<Rightarrow> (case get_response s' uuid of (future, s'') \<Rightarrow> (Inr future, s''))))"

text \<open>The rest of \<open>Client.ping\<close>: \<open>resp = await ...; return resp.get("success", False)\<close>.\<close>

definition ping_return :: "client \<Rightarrow> nat \<Rightarrow> (error + pyval) \<times> client" where
  "ping_return s future =
     (case wait_for s future of
        (Inl e, s') \<Rightarrow> (Inl e, s')
      | (Inr resp, s') \<Rightarrow> (py_get resp ''success'' (PBool False), s'))"

text \<open>\<open>not route\<close> for an argument that is \<open>None\<close> or a \<open>str\<close>.\<close>

definition falsy :: "string option \<Rightarrow> bool" where
  "falsy x = (case x of None \<Rightarrow> True | Some str \<Rightarrow> str = [])"

text \<open>\<open>Client.request\<close> up to its suspension; \<open>kwargs\<close> are the keyword arguments.\<close>

definition request ::
  "client \<Rightarrow> string option \<Rightarrow> string option \<Rightarrow> (string \<times> pyval) list \<Rightarrow> string
     \<Rightarrow> (error + nat) \<times> client" where
  "request s rt source kwargs uuid =
     (if websocket s \<noteq> None \<and> websocket s = Some OPEN then
        (if on_hold s
         then (Inl (ClientNotReadyError
                     ''The client is currently not ready to send or accept requests.''), s)
         else if \<not> authorized s
         then (Inl (UnauthorizedError ''Client is not authorized!''), s)
         else if falsy rt \<or> falsy source
         then (Inl (ValueError ''Missing required information for this request''), s)
         else
           (let payload = (MessagePayload P_request)
                  \<lparr>env_id := Some (local_name s), env_destination := source,
                   env_route := (case rt of Some r \<Rightarrow> Route_name r | None \<Rightarrow> Route_none),
                   env_data := PDict kwargs, env_uuid := Some uuid\<rparr>
            in case send_message s payload of
                 (Some e, s') \<Rightarrow> (Inl e, s')
               | (None, s') \<Rightarrow>
                   (case get_response s' uuid of (future, s'') \<Rightarrow> (Inr future, s''))))
      else (Inl (ClientNotReadyError
                  ''The client has not been started or has disconnected''), s))"

text \<open>The rest of \<open>Client.request\<close>: \<open>recv = await ...; return recv\<close>.\<close>

definition request_return :: "client \<Rightarrow> nat \<Rightarrow> (error + pyval) \<times> client" where
  "request_return s future = wait_for s future"

text \<open>The \<open>destinations\<close> argument of \<open>inform\<close>: a list, or one name that is wrapped.\<close>

datatype destinations = Dest_list "string list" | Dest_single string

definition inform :: "client \<Rightarrow> pyval \<Rightarrow> destinations \<Rightarrow> error option \<times> client" where
  "inform s data dests =
     (if websocket s \<noteq> None \<and> websocket s = Some OPEN then
        (if on_hold s
         then (Some (ClientNotReadyError
                      ''The client is currently not ready to send or accept requests.''), s)
         else if \<not> authorized s
         then (Some (UnauthorizedError ''Client is not authorized!''), s)
         else
           (let dl = (case dests of Dest_list ds \<Rightarrow> ds | Dest_single d \<Rightarrow> [d]);
                payload = (MessagePayload P_information)
                  \<lparr>env_id := Some (local_name s), env_route := Route_list dl, env_data := data\<rparr>
            in send_message s payload))
      else (Some (ClientNotReadyError
                   ''The client has not been started or has disconnected''), s))"

text \<open>\<open>Client.start\<close>; \<open>connected\<close> says whether \<open>websockets.connect\<close> succeeded.\<close>

definition start :: "client \<Rightarrow> string \<Rightarrow> bool \<Rightarrow> error option \<times> client" where
  "start s uuid connected =
     (if websocket s = None \<or> websocket s = Some CLOSED then
        (if \<not> connected then (Some OSError, s)
         else
           (case fire ''on_winerp_connect'' [] (s\<lparr>websocket := Some OPEN\<rparr>) of
              (Some e, s1) \<Rightarrow> (Some e, s1)
            | (None, s1) \<Rightarrow>
                (let payload = (MessagePayload P_verification)
                       \<lparr>env_id := Some (local_name s), env_uuid := Some uuid\<rparr>
                 in case send_message s1 payload of
                      (Some e, s2) \<Rightarrow> (Some e, s2)
                    | (None, s2) \<Rightarrow> (None, create_task Task_on_message s2))))
      else (Some (ConnectionError ''Websocket is already connected!''), s))"

section \<open>The Request Invoker\<close>

text \<open>The body of the \<open>try\<close> in \<open>_fulfill_request\<close>: the exception it raises, if any,
  and the payload as it then stands.\<close>

definition try_body :: "func \<Rightarrow> envelope \<Rightarrow> envelope \<Rightarrow> raised option \<times> envelope" where
  "try_body f message payload =
     (case fn_call f (env_data message) of
        Raises e \<Rightarrow> (Some e, payload)
      | Returns v \<Rightarrow> (json_dumps v, payload\<lparr>env_data := v\<rparr>))"

text \<open>The \<open>except Exception as error\<close> clause: the "error" notification comes first, and
  if its call raises, the payload stays as it was and that exception leaves the clause.\<close>

definition except_clause ::
  "client \<Rightarrow> envelope \<Rightarrow> raised \<Rightarrow> error option \<times> client \<times> envelope" where
  "except_clause s payload e =
     (case fire ''on_winerp_error'' [Arg_exn e] s of
        (Some te, s1) \<Rightarrow> (Some te, s1, payload)
      | (None, s1) \<Rightarrow>
          (None, s1, payload\<lparr>env_type := P_error, env_data := PStr (exn_str e),
                              env_traceback := Some (exn_traceback e)\<rparr>))"

text \<open>\<open>Client._fulfill_request\<close>. The lookup \<open>self.routes[route]\<close> stands before the
  \<open>try\<close>. An exception whose class is not an \<open>Exception\<close> passes the \<open>except\<close> clause.
  In every case the \<open>finally\<close> clause hands the payload as it stands to
  \<open>__send_message\<close>, and an exception that was not handled leaves the coroutine.\<close>

definition fulfill_request :: "client \<Rightarrow> envelope \<Rightarrow> error option \<times> client" where
  "fulfill_request s message =
     (case env_route message of
        Route_list rs \<Rightarrow> (Some (TypeError ''unhashable type: list''), s)
      | Route_none \<Rightarrow> (Some KeyError, s)
      | Route_name r \<Rightarrow>
          (case routes s r of
             None \<Rightarrow> (Some KeyError, s)
           | Some f \<Rightarrow>
               (let payload = (from_message message)
                      \<lparr>env_type := P_response, env_id := Some (local_name s),
                       env_data := PDict []\<rparr>
                in case try_body f message payload of
                     (None, payload1) \<Rightarrow> (None, send_message_task s payload1)
                   | (Some e, payload1) \<Rightarrow>
                       if is_Exception e then
                         (case except_clause s payload1 e of
                            (err, s1, payload2) \<Rightarrow> (err, send_message_task s1 payload2))
                       else (Some (Propagated e), send_message_task s payload1))))"

section \<open>Resolving pending operations\<close>

text \<open>\<open>future.set_result\<close> and \<open>future.set_exception\<close>: a future that is already done
  (or is none of this loop) raises \<open>InvalidStateError\<close>.\<close>

definition set_future :: "future list \<Rightarrow> nat \<Rightarrow> future \<Rightarrow> error + future list" where
  "set_future fs future v =
     (if future < length fs \<and> fs ! future = Pending then Inr (fs[future := v])
      else Inl InvalidStateError)"

text \<open>The body of the loop of \<open>_dispatch\<close> for an entry whose key is the uuid.\<close>

definition resolve ::
  "envelope \<Rightarrow> string \<Rightarrow> (pyval \<Rightarrow> bool) option \<times> nat \<Rightarrow> future list
     \<Rightarrow> error + future list" where
  "resolve msg uuid val fs =
     (let check = (case fst val of None \<Rightarrow> (\<lambda>data. True) | Some c \<Rightarrow> c);
          future = snd val
      in if env_type msg \<noteq> P_error then
           (if check (env_data msg) then set_future fs future (Result (env_data msg))
            else set_future fs future
                   (Exception (CheckFailureError (''Check failed for UUID '' @ uuid))))
         else set_future fs future (Exception (ClientRuntimeError (env_data msg))))"

text \<open>\<open>for key, val in self.listeners.items()\<close>, carrying \<open>found\<close> and the heap of
  futures; an exception ends the loop with the heap as it then is.\<close>

fun dispatch_loop ::
  "(string \<times> ((pyval \<Rightarrow> bool) option \<times> nat)) list \<Rightarrow> envelope \<Rightarrow> string
     \<Rightarrow> bool \<Rightarrow> future list \<Rightarrow> error option \<times> bool \<times> future list" where
  "dispatch_loop [] msg uuid found fs = (None, found, fs)"
| "dispatch_loop ((key, val) # items) msg uuid found fs =
     (if key = uuid then
        (case resolve msg uuid val fs of
           Inl e \<Rightarrow> (Some e, True, fs)
         | Inr fs' \<Rightarrow> dispatch_loop items msg uuid True fs')
      else dispatch_loop items msg uuid found fs)"

text \<open>\<open>Client._dispatch\<close>.\<close>

definition dispatch :: "client \<Rightarrow> envelope \<Rightarrow> error option \<times> client" where
  "dispatch s msg =
     (case env_uuid msg of
        None \<Rightarrow> (Some (MissingUUIDError ''UUID is missing.''), s)
      | Some uuid \<Rightarrow>
          (case dispatch_loop (listeners s) msg uuid False (futures s) of
             (Some e, found, fs) \<Rightarrow> (Some e, s\<lparr>futures := fs\<rparr>)
           | (None, found, fs) \<Rightarrow>
               if \<not> found
               then (Some (UUIDNotFoundError (''UUID '' @ uuid @ '' not found in listeners.'')),
                     s\<lparr>futures := fs\<rparr>)
               else (None, s\<lparr>futures := fs\<rparr>)))"

section \<open>The Dispatcher\<close>

text \<open>What \<open>await self.websocket.recv()\<close> followed by \<open>WsMessage(json.loads(...))\<close> gives:
  an envelope, a frame that does not parse, or the closure of the transport (with an error,
  or orderly).\<close>

datatype recv = Recv envelope | Recv_invalid | Recv_closed_error | Recv_closed_ok

text \<open>How one pass through the body of \<open>while True\<close> ends.\<close>

datatype status = Next | Break | Return | Raise error | Suspended

text \<open>The payload of the reply to a request for an unknown route.\<close>

definition route_not_found :: "client \<Rightarrow> envelope \<Rightarrow> envelope" where
  "route_not_found s message =
     (MessagePayload P_error)
       \<lparr>env_id := Some (local_name s), env_data := PStr ''Route not found'',
        env_traceback := Some ''Route not found'', env_destination := env_id message,
        env_uuid := env_uuid message\<rparr>"

text \<open>One pass through the body of the loop of \<open>Client.__on_message\<close>.\<close>

definition on_message_body :: "client \<Rightarrow> recv \<Rightarrow> status \<times> client" where
  "on_message_body s r =
     (case r of
        Recv_closed_error \<Rightarrow>
          (case fire ''on_winerp_disconnect'' [] s of
             (Some e, s1) \<Rightarrow> (Raise e, s1)
           | (None, s1) \<Rightarrow> (Break, s1))
      | Recv_closed_ok \<Rightarrow> (Raise ConnectionClosedOK, s)
      | Recv_invalid \<Rightarrow> (Raise JSONDecodeError, s)
      | Recv message \<Rightarrow>
          if env_type message = P_success \<and> \<not> authorized s then
            (case fire ''on_winerp_ready'' [] s of
               (Some e, s1) \<Rightarrow> (Raise e, s1)
             | (None, s1) \<Rightarrow> (Next, s1\<lparr>authorized := True, on_hold := False\<rparr>))
          else if env_type message = P_ping then
            (Next, create_task (Task_dispatch message) s)
          else if env_type message = P_request then
            (case env_route message of
               Route_list rs \<Rightarrow> (Raise (TypeError ''unhashable type: list''), s)
             | Route_none \<Rightarrow> (Return, send_message_task s (route_not_found s message))
             | Route_name rt \<Rightarrow>
                 if routes s rt = None
                 then (Return, send_message_task s (route_not_found s message))
                 else
                   (case fire ''on_winerp_request'' [] (create_task (Task_fulfill message) s) of
                      (Some e, s1) \<Rightarrow> (Raise e, s1)
                    | (None, s1) \<Rightarrow> (Next, s1)))
          else if env_type message = P_response then
            (case fire ''on_winerp_response'' [] (create_task (Task_dispatch message) s) of
               (Some e, s1) \<Rightarrow> (Raise e, s1)
             | (None, s1) \<Rightarrow> (Next, s1))
          else if env_type message = P_error then
            (case (if env_data message = PStr ''Already authorized.''
                   then (None, s\<lparr>on_hold := True\<rparr>)
                   else fire ''on_winerp_error'' [Arg_val (env_data message)] s) of
               (Some e, s1) \<Rightarrow> (Raise e, s1)
             | (None, s1) \<Rightarrow>
                 if env_uuid message \<noteq> None
                 then (Next, create_task (Task_dispatch message) s1)
                 else (Next, s1))
          else if env_type message = P_information then
            (if truthy (env_data message)
             then
               (case fire ''on_winerp_information''
                       [Arg_val (env_data message), Arg_id (env_id message)] s of
                  (Some e, s1) \<Rightarrow> (Raise e, s1)
                | (None, s1) \<Rightarrow> (Next, s1))
             else (Next, s))
          else (Next, s))"

text \<open>\<open>Client.__on_message\<close> on what the transport yields, in order. When the list is
  used up the coroutine is suspended in \<open>recv\<close>.\<close>

fun on_message :: "client \<Rightarrow> recv list \<Rightarrow> status \<times> client" where
  "on_message s [] = (Suspended, s)"
| "on_message s (r # rs) =
     (case on_message_body s r of
        (Next, s') \<Rightarrow> on_message s' rs
      | (st, s') \<Rightarrow> (st, s'))"

section \<open>Runs of the client\<close>

text \<open>
  Everything that can happen to a \<open>Client\<close>: a call of its public interface (the two
  halves of \<open>ping\<close> and \<open>request\<close> separately), the event loop running one of the
  coroutines the client handed to \<open>create_task\<close>, and the transport changing the state of
  the connection. A run is any sequence of these, in any order, which covers every schedule
  of the event loop.
\<close>

datatype step =
    Call_start string bool
  | Call_route "string option" func
  | Call_event func
  | Call_ping "string option" string
  | Call_ping_return nat
  | Call_request "string option" "string option" "(string \<times> pyval) list" string
  | Call_request_return nat
  | Call_inform pyval destinations
  | Run_send envelope
  | Run_on_message "recv list"
  | Run_fulfill_request envelope
  | Run_dispatch envelope
  | Transport ws_state

fun exec :: "step \<Rightarrow> client \<Rightarrow> client" where
  "exec (Call_start uuid connected) s = snd (start s uuid connected)"
| "exec (Call_route name f) s = snd (route s name f)"
| "exec (Call_event f) s = snd (event s f)"
| "exec (Call_ping cl uuid) s = snd (ping s cl uuid)"
| "exec (Call_ping_return future) s = snd (ping_return s future)"
| "exec (Call_request rt source kwargs uuid) s = snd (request s rt source kwargs uuid)"
| "exec (Call_request_return future) s = snd (request_return s future)"
| "exec (Call_inform data dests) s = snd (inform s data dests)"
| "exec (Run_send data) s = snd (send_message s data)"
| "exec (Run_on_message rs) s = snd (on_message s rs)"
| "exec (Run_fulfill_request message) s = snd (fulfill_request s message)"
| "exec (Run_dispatch msg) s = snd (dispatch s msg)"
| "exec (Transport st) s =
     (case websocket s of None \<Rightarrow> s | Some ws \<Rightarrow> s\<lparr>websocket := Some st\<rparr>)"

text \<open>The number of "ready" notifications fired so far.\<close>

fun is_ready :: "task \<Rightarrow> bool" where
  "is_ready (Task_event key handler args) = (key = ''on_winerp_ready'')"
| "is_ready t = False"

definition ready_fired :: "client \<Rightarrow> nat" where
  "ready_fired s = length (filter is_ready (tasks s))"

definition ready_inv :: "client \<Rightarrow> bool" where
  "ready_inv s = (ready_fired s = 0 \<or> (ready_fired s = 1 \<and> authorized s))"

definition same_auth :: "client \<Rightarrow> client \<Rightarrow> bool" where
  "same_auth s s' = (authorized s' = authorized s \<and> ready_fired s' = ready_fired s)"

text \<open>The payloads of the sends the client has scheduled with \<open>__send_message\<close>, in
  order.\<close>

fun sends :: "task list \<Rightarrow> envelope list" where
  "sends [] = []"
| "sends (Task_send data # ts) = data # sends ts"
| "sends (t # ts) = sends ts"

section \<open>Example clients\<close>

text \<open>The route of the spec's scenario: \<open>add\<close> returns the sum of \<open>x\<close> and \<open>y\<close>.\<close>

definition add_fn :: func where
  "add_fn =
     \<lparr>fn_name = ''add'', fn_is_coro = True, fn_accepts = (\<lambda>n. n = 2),
      fn_call = (\<lambda>data. case data of
          PDict [(''x'', PInt x), (''y'', PInt y)] \<Rightarrow> Returns (PInt (x + y))
        | _ \<Rightarrow> Raises (Raised True ''add() got unexpected arguments'' ''Traceback''))\<rparr>"

definition success_msg :: envelope where
  "success_msg = MessagePayload P_success"

definition already_authorized :: envelope where
  "already_authorized = (MessagePayload P_error)\<lparr>env_data := PStr ''Already authorized.''\<rparr>"

text \<open>Client \<open>A\<close> after \<open>start\<close>, after the relay's success message, and while a request
  to \<open>B\<close> is outstanding under the correlation id \<open>u1\<close>.\<close>

definition started :: client where
  "started = snd (start (init ''A'') ''v0'' True)"

definition ready_client :: client where
  "ready_client = snd (on_message started [Recv success_msg])"

definition waiting_client :: client where
  "waiting_client =
     snd (request ready_client (Some ''add'') (Some ''B'') [(''x'', PInt 2), (''y'', PInt 3)]
            ''u1'')"

definition add_response :: envelope where
  "add_response =
     (MessagePayload P_response)
       \<lparr>env_id := Some ''B'', env_data := PInt 5, env_uuid := Some ''u1''\<rparr>"

text \<open>A client whose name the relay reported as taken before authorizing it.\<close>

definition held_client :: client where
  "held_client = snd (on_message started [Recv already_authorized])"

text \<open>A run in which the relay closes the connection and the client connects again.\<close>

definition reconnect_run :: "step list" where
  "reconnect_run =
     [Run_on_message [Recv already_authorized, Recv_closed_error], Transport CLOSED,
      Call_start ''v1'' True, Run_on_message [Recv success_msg]]"

text \<open>Requests from \<open>B\<close>: for a route nobody registered, for \<open>add\<close>, and for a route whose
  handler calls \<open>sys.exit(1)\<close> (\<open>SystemExit\<close> derives from \<open>BaseException\<close> only).\<close>

definition unknown_request :: envelope where
  "unknown_request =
     (MessagePayload P_request)
       \<lparr>env_id := Some ''B'', env_destination := Some ''A'', env_route := Route_name ''nope'',
        env_data := PDict [], env_uuid := Some ''u7''\<rparr>"







text \<open>Client \<open>A\<close> with a ping to \<open>B\<close> outstanding under \<open>p1\<close>, and the answer to it.\<close>

definition pinging_client :: client where
  "pinging_client = snd (ping ready_client (Some ''B'') ''p1'')"

definition pong :: envelope where
  "pong =
     (MessagePayload P_ping)
       \<lparr>env_data := PDict [(''success'', PBool True)], env_uuid := Some ''p1''\<rparr>"

text \<open>Lifecycle handlers whose parameters do not fit the way the client calls them:
  \<open>async def on_winerp_ready(client)\<close> and \<open>async def on_winerp_error()\<close>. \<open>event\<close>
  accepts both.\<close>

definition ready_with_parameter :: func where
  "ready_with_parameter =
     \<lparr>fn_name = ''on_winerp_ready'', fn_is_coro = True, fn_accepts = (\<lambda>n. n = 1),
      fn_call = (\<lambda>data. Returns PNone)\<rparr>"


text \<open>The client on hold with that "ready" handler registered, and the serving client with
  that "error" handler registered.\<close>

definition held_listener :: client where
  "held_listener = snd (event held_client ready_with_parameter)"




section \<open>Basic facts\<close>

lemma create_task_fields [simp]:
  "local_name (create_task t s) = local_name s"
  "websocket (create_task t s) = websocket s"
  "routes (create_task t s) = routes s"
  "listeners (create_task t s) = listeners s"
  "authorized (create_task t s) = authorized s"
  "on_hold (create_task t s) = on_hold s"
  "events (create_task t s) = events s"
  "futures (create_task t s) = futures s"
  "sent (create_task t s) = sent s"
  "tasks (create_task t s) = tasks s @ [t]"
  by (simp_all add: create_task_def)

lemma fire_fields [simp]:
  "local_name (snd (fire k as s)) = local_name s"
  "websocket (snd (fire k as s)) = websocket s"
  "routes (snd (fire k as s)) = routes s"
  "listeners (snd (fire k as s)) = listeners s"
  "authorized (snd (fire k as s)) = authorized s"
  "on_hold (snd (fire k as s)) = on_hold s"
  "events (snd (fire k as s)) = events s"
  "futures (snd (fire k as s)) = futures s"
  "sent (snd (fire k as s)) = sent s"
  "tasks (snd (fire k as s)) =
     (if accepts_call s k (length as) then tasks s @ [Task_event k (get_event s k) as]
      else tasks s)"
  by (simp_all add: fire_def)

lemma fire_cases:
  "fire k as s = (None, create_task (Task_event k (get_event s k) as) s)
   \<or> fire k as s = (Some (TypeError (k @ ''() does not take the arguments given'')), s)"
  by (simp add: fire_def)

lemma send_message_task_fields [simp]:
  "local_name (send_message_task s p) = local_name s"
  "websocket (send_message_task s p) = websocket s"
  "routes (send_message_task s p) = routes s"
  "listeners (send_message_task s p) = listeners s"
  "authorized (send_message_task s p) = authorized s"
  "on_hold (send_message_task s p) = on_hold s"
  "events (send_message_task s p) = events s"
  "futures (send_message_task s p) = futures s"
  "sent (send_message_task s p) = sent s"
  "tasks (send_message_task s p) = tasks s @ [Task_send p]"
  by (simp_all add: send_message_task_def)

lemma send_message_fields [simp]:
  "local_name (snd (send_message s p)) = local_name s"
  "websocket (snd (send_message s p)) = websocket s"
  "routes (snd (send_message s p)) = routes s"
  "listeners (snd (send_message s p)) = listeners s"
  "authorized (snd (send_message s p)) = authorized s"
  "on_hold (snd (send_message s p)) = on_hold s"
  "events (snd (send_message s p)) = events s"
  "futures (snd (send_message s p)) = futures s"
  "tasks (snd (send_message s p)) = tasks s"
  by (simp_all add: send_message_def split: option.splits)

lemma get_response_fields [simp]:
  "local_name (snd (get_response s u)) = local_name s"
  "websocket (snd (get_response s u)) = websocket s"
  "routes (snd (get_response s u)) = routes s"
  "authorized (snd (get_response s u)) = authorized s"
  "on_hold (snd (get_response s u)) = on_hold s"
  "events (snd (get_response s u)) = events s"
  "tasks (snd (get_response s u)) = tasks s"
  "sent (snd (get_response s u)) = sent s"
  "futures (snd (get_response s u)) = futures s @ [Pending]"
  "listeners (snd (get_response s u)) = dict_set (listeners s) u (None, length (futures s))"
  "fst (get_response s u) = length (futures s)"
  by (simp_all add: get_response_def Let_def)

lemma ready_fired_simps [simp]:
  "ready_fired (create_task t s) = ready_fired s + (if is_ready t then 1 else 0)"
  "ready_fired (snd (fire k as s)) =
     ready_fired s + (if k = ''on_winerp_ready'' \<and> accepts_call s k (length as) then 1 else 0)"
  "ready_fired (send_message_task s p) = ready_fired s"
  "ready_fired (snd (send_message s p)) = ready_fired s"
  "ready_fired (snd (get_response s u)) = ready_fired s"
  "ready_fired (s\<lparr>authorized := a\<rparr>) = ready_fired s"
  "ready_fired (s\<lparr>on_hold := h\<rparr>) = ready_fired s"
  "ready_fired (s\<lparr>futures := fs\<rparr>) = ready_fired s"
  "ready_fired (s\<lparr>websocket := w\<rparr>) = ready_fired s"
  "ready_fired (s\<lparr>routes := r\<rparr>) = ready_fired s"
  "ready_fired (s\<lparr>events := ev\<rparr>) = ready_fired s"
  by (simp_all add: ready_fired_def)

subsection \<open>The example clients, evaluated\<close>

lemma started_eq:
  "started =
     \<lparr>local_name = ''A'', websocket = Some OPEN, routes = Map.empty, listeners = [],
      authorized = False, on_hold = False, events = init_events, futures = [],
      tasks = [Task_event ''on_winerp_connect'' None [], Task_on_message],
      sent = [(MessagePayload P_verification)\<lparr>env_id := Some ''A'', env_uuid := Some ''v0''\<rparr>]\<rparr>"
  by (simp add: started_def start_def init_def fire_def accepts_call_def create_task_def
      get_event_def init_events_def send_message_def MessagePayload_def)

lemma ready_client_eq:
  "ready_client =
     started\<lparr>authorized := True,
             tasks := [Task_event ''on_winerp_connect'' None [], Task_on_message,
                       Task_event ''on_winerp_ready'' None []]\<rparr>"
  by (simp add: ready_client_def started_eq on_message_body_def fire_def accepts_call_def
      create_task_def get_event_def init_events_def success_msg_def MessagePayload_def)

lemma waiting_client_eq:
  "waiting_client =
     ready_client\<lparr>futures := [Pending], listeners := [(''u1'', (None, 0))],
       sent := sent ready_client @
         [(MessagePayload P_request)
            \<lparr>env_id := Some ''A'', env_destination := Some ''B'', env_route := Route_name ''add'',
             env_data := PDict [(''x'', PInt 2), (''y'', PInt 3)], env_uuid := Some ''u1''\<rparr>]\<rparr>"
  by (simp add: waiting_client_def ready_client_eq started_eq request_def falsy_def
      send_message_def get_response_def MessagePayload_def)

lemma held_client_eq: "held_client = started\<lparr>on_hold := True\<rparr>"
  by (simp add: held_client_def started_eq on_message_body_def already_authorized_def
      MessagePayload_def)

section \<open>Route registration\<close>

text \<open>
  Claim C8. Registering a route under a name that is already in the registry (the explicit
  name, or the handler's own name when none is given) raises the duplicate-route error
  (\<open>ValueError("Route name already exists!")\<close>) and leaves the client as it was; the route
  registered first is still the one found under that name.
\<close>

theorem route_duplicate_rejected:
  assumes "key = (case name of None \<Rightarrow> fn_name f | Some n \<Rightarrow> n)"
      and "routes s key = Some g"
  shows "route s name f = (Some (ValueError ''Route name already exists!''), s)
         \<and> routes (snd (route s name f)) key = Some g"
  using assms by (auto simp: route_def split: option.splits)

theorem route_duplicate_rejected_witness:
  "route (started\<lparr>routes := [''add'' \<mapsto> add_fn]\<rparr>) (Some ''add'') (add_fn\<lparr>fn_name := ''sum''\<rparr>)
     = (Some (ValueError ''Route name already exists!''), started\<lparr>routes := [''add'' \<mapsto> add_fn]\<rparr>)
   \<and> routes (snd (route (started\<lparr>routes := [''add'' \<mapsto> add_fn]\<rparr>) (Some ''add'')
                    (add_fn\<lparr>fn_name := ''sum''\<rparr>))) ''add'' = Some add_fn
   \<and> route (started\<lparr>routes := [''add'' \<mapsto> add_fn]\<rparr>) None add_fn
     = (Some (ValueError ''Route name already exists!''), started\<lparr>routes := [''add'' \<mapsto> add_fn]\<rparr>)"
  using route_duplicate_rejected [where key = "''add''" and name = "Some ''add''"
          and f = "add_fn\<lparr>fn_name := ''sum''\<rparr>" and g = add_fn
          and s = "started\<lparr>routes := [''add'' \<mapsto> add_fn]\<rparr>"]
        route_duplicate_rejected [where key = "''add''" and name = None
          and f = add_fn and g = add_fn
          and s = "started\<lparr>routes := [''add'' \<mapsto> add_fn]\<rparr>"]
  by (simp add: add_fn_def)

text \<open>An explicit empty name is outside that claim: the test looks for the empty name, the
  assignment uses \<open>name or func.__name__\<close>, so the handler is stored under its own name
  whether or not a route of that name exists.\<close>

lemma route_empty_name_replaces:
  assumes "routes s [] = None" and "fn_is_coro f"
  shows "route s (Some []) f = (None, s\<lparr>routes := (routes s)(fn_name f \<mapsto> f)\<rparr>)"
  using assms by (simp add: route_def route_key_def)

section \<open>Readiness and authorization of outbound calls\<close>

text \<open>
  Claim C5. Whatever their arguments, \<open>ping\<close>, \<open>request\<close> and \<open>inform\<close> raise
  \<open>ClientNotReadyError\<close> when the client is on hold or its websocket is missing or not
  open, and \<open>UnauthorizedError\<close> when the websocket is open, the client is not on hold and
  it is not authorized; in both cases the client is unchanged, so nothing was sent and no
  task was created.
\<close>

theorem outbound_guards:
  "(on_hold s \<or> websocket s \<noteq> Some OPEN \<longrightarrow>
      (\<exists>m. ping s cl u = (Inl (ClientNotReadyError m), s))
    \<and> (\<exists>m. request s rt src kw u = (Inl (ClientNotReadyError m), s))
    \<and> (\<exists>m. inform s d ds = (Some (ClientNotReadyError m), s)))
 \<and> (websocket s = Some OPEN \<and> \<not> on_hold s \<and> \<not> authorized s \<longrightarrow>
      ping s cl u = (Inl (UnauthorizedError ''Client is not authorized!''), s)
    \<and> request s rt src kw u = (Inl (UnauthorizedError ''Client is not authorized!''), s)
    \<and> inform s d ds = (Some (UnauthorizedError ''Client is not authorized!''), s))"
  by (auto simp: ping_def request_def inform_def)

theorem outbound_guards_witness:
  "(\<exists>m. ping held_client (Some ''B'') ''u1'' = (Inl (ClientNotReadyError m), held_client))
   \<and> (\<exists>m. request held_client (Some ''add'') (Some ''B'') [] ''u1''
            = (Inl (ClientNotReadyError m), held_client))
   \<and> (\<exists>m. inform held_client (PStr ''hello'') (Dest_single ''B'')
            = (Some (ClientNotReadyError m), held_client))
   \<and> (\<exists>m. request (init ''A'') (Some ''add'') (Some ''B'') [] ''u1''
            = (Inl (ClientNotReadyError m), init ''A''))
   \<and> ping started (Some ''B'') ''u1''
        = (Inl (UnauthorizedError ''Client is not authorized!''), started)
   \<and> request started (Some ''add'') (Some ''B'') [] ''u1''
        = (Inl (UnauthorizedError ''Client is not authorized!''), started)
   \<and> inform started (PStr ''hello'') (Dest_single ''B'')
        = (Some (UnauthorizedError ''Client is not authorized!''), started)"
  using outbound_guards [where s = held_client and cl = "Some ''B''" and u = "''u1''"
          and rt = "Some ''add''" and src = "Some ''B''" and kw = "[]"
          and d = "PStr ''hello''" and ds = "Dest_single ''B''"]
        outbound_guards [where s = "init ''A''" and cl = "Some ''B''" and u = "''u1''"
          and rt = "Some ''add''" and src = "Some ''B''" and kw = "[]"
          and d = "PStr ''hello''" and ds = "Dest_single ''B''"]
        outbound_guards [where s = started and cl = "Some ''B''" and u = "''u1''"
          and rt = "Some ''add''" and src = "Some ''B''" and kw = "[]"
          and d = "PStr ''hello''" and ds = "Dest_single ''B''"]
  by (simp add: held_client_eq started_eq init_def)

section \<open>Resolution of a pending operation\<close>

lemma dispatch_loop_absent:
  "uuid \<notin> fst ` set items \<Longrightarrow> dispatch_loop items msg uuid found fs = (None, found, fs)"
  by (induction items) auto

lemma dispatch_loop_present:
  assumes "distinct (map fst items)" and "(uuid, val) \<in> set items"
  shows "dispatch_loop items msg uuid found fs =
           (case resolve msg uuid val fs of
              Inl e \<Rightarrow> (Some e, True, fs)
            | Inr fs' \<Rightarrow> (None, True, fs'))"
  using assms
proof (induction items arbitrary: found)
  case Nil
  then show ?case by simp
next
  case (Cons kv items)
  obtain key v where kv: "kv = (key, v)" by (cases kv)
  show ?case
  proof (cases "key = uuid")
    case True
    with Cons.prems kv have "v = val" and "uuid \<notin> fst ` set items"
      by (auto simp: image_iff)
    then show ?thesis using True kv
      by (simp add: dispatch_loop_absent split: sum.splits)
  next
    case False
    with Cons kv show ?thesis by auto
  qed
qed

text \<open>The keys of a dict are distinct: assignment keeps them so.\<close>

lemma dict_set_keys:
  "map fst (dict_set kvs k v) = (if k \<in> fst ` set kvs then map fst kvs else map fst kvs @ [k])"
proof (induction kvs)
  case Nil
  show ?case by simp
next
  case (Cons kv kvs)
  obtain k' v' where kv: "kv = (k', v')" by (cases kv)
  show ?case
  proof (cases "k' = k")
    case True
    with kv show ?thesis by simp
  next
    case False
    with kv Cons.IH show ?thesis by (cases "k \<in> fst ` set kvs") simp_all
  qed
qed

lemma dict_set_distinct:
  "distinct (map fst kvs) \<Longrightarrow> distinct (map fst (dict_set kvs k v))"
  by (simp add: dict_set_keys)

lemma dict_set_lookup: "map_of (dict_set kvs k v) k = Some v"
  by (induction kvs) auto

lemma dict_set_mem: "(k, v) \<in> set (dict_set kvs k v)"
  by (induction kvs) auto

lemma dispatch_found:
  assumes "env_uuid msg = Some uuid" and "distinct (map fst (listeners s))"
      and "(uuid, (check, future)) \<in> set (listeners s)"
      and "future < length (futures s)" and "futures s ! future = Pending"
  shows "dispatch s msg = (None, s\<lparr>futures := (futures s)[future :=
           (if env_type msg = P_error then Exception (ClientRuntimeError (env_data msg))
            else if (case check of None \<Rightarrow> True | Some c \<Rightarrow> c (env_data msg))
                 then Result (env_data msg)
                 else Exception (CheckFailureError (''Check failed for UUID '' @ uuid)))]\<rparr>)"
proof -
  from assms have "dispatch_loop (listeners s) msg uuid False (futures s) =
     (case resolve msg uuid (check, future) (futures s) of
        Inl e \<Rightarrow> (Some e, True, futures s) | Inr fs' \<Rightarrow> (None, True, fs'))"
    by (simp add: dispatch_loop_present)
  with assms show ?thesis
    by (cases check) (simp_all add: dispatch_def resolve_def set_future_def)
qed

lemma dispatch_not_found:
  assumes "env_uuid msg = Some uuid" and "uuid \<notin> fst ` set (listeners s)"
  shows "dispatch s msg =
           (Some (UUIDNotFoundError (''UUID '' @ uuid @ '' not found in listeners.'')), s)"
  using assms by (simp add: dispatch_def dispatch_loop_absent)

text \<open>
  Claim C7. When the envelope carries the correlation id of an entry of the table whose
  future is pending, \<open>_dispatch\<close> settles that future and raises nothing: for an envelope
  that is not of kind Error, with the payload if the acceptance check passes (no check
  counts as passing) and with \<open>CheckFailureError\<close> if it fails; for an Error envelope, with
  \<open>ClientRuntimeError\<close> carrying the payload, whatever the check says. When no entry has
  the id, it raises \<open>UUIDNotFoundError\<close> and changes nothing.
\<close>

theorem dispatch_resolves:
  "(env_uuid msg = Some uuid \<and> distinct (map fst (listeners s))
      \<and> (uuid, (check, future)) \<in> set (listeners s)
      \<and> future < length (futures s) \<and> futures s ! future = Pending
    \<longrightarrow> dispatch s msg = (None, s\<lparr>futures := (futures s)[future :=
           (if env_type msg = P_error then Exception (ClientRuntimeError (env_data msg))
            else if (case check of None \<Rightarrow> True | Some c \<Rightarrow> c (env_data msg))
                 then Result (env_data msg)
                 else Exception (CheckFailureError (''Check failed for UUID '' @ uuid)))]\<rparr>))
 \<and> (env_uuid msg = Some uuid \<and> uuid \<notin> fst ` set (listeners s)
    \<longrightarrow> dispatch s msg =
          (Some (UUIDNotFoundError (''UUID '' @ uuid @ '' not found in listeners.'')), s))"
  using dispatch_found [of msg uuid s check future] dispatch_not_found [of msg uuid s]
  by blast

theorem dispatch_resolves_witness:
  "dispatch waiting_client add_response = (None, waiting_client\<lparr>futures := [Result (PInt 5)]\<rparr>)
   \<and> dispatch waiting_client (add_response\<lparr>env_type := P_error\<rparr>)
       = (None, waiting_client\<lparr>futures := [Exception (ClientRuntimeError (PInt 5))]\<rparr>)
   \<and> dispatch (waiting_client\<lparr>listeners := [(''u1'', (Some (\<lambda>data. data = PInt 6), 0))]\<rparr>)
        add_response
       = (None, waiting_client\<lparr>listeners := [(''u1'', (Some (\<lambda>data. data = PInt 6), 0))],
            futures := [Exception (CheckFailureError ''Check failed for UUID u1'')]\<rparr>)
   \<and> dispatch waiting_client (add_response\<lparr>env_uuid := Some ''u2''\<rparr>)
       = (Some (UUIDNotFoundError ''UUID u2 not found in listeners.''), waiting_client)"
  using dispatch_resolves [where s = waiting_client and msg = add_response and uuid = "''u1''"
          and check = None and future = 0]
        dispatch_resolves [where s = waiting_client and msg = "add_response\<lparr>env_type := P_error\<rparr>"
          and uuid = "''u1''" and check = None and future = 0]
        dispatch_resolves [where
          s = "waiting_client\<lparr>listeners := [(''u1'', (Some (\<lambda>data. data = PInt 6), 0))]\<rparr>"
          and msg = add_response and uuid = "''u1''"
          and check = "Some (\<lambda>data. data = PInt 6)" and future = 0]
        dispatch_resolves [where s = waiting_client
          and msg = "add_response\<lparr>env_uuid := Some ''u2''\<rparr>" and uuid = "''u2''"]
  by (simp add: waiting_client_eq ready_client_eq started_eq add_response_def MessagePayload_def)

section \<open>Authorization is never withdrawn\<close>

lemma same_auth_start: "same_auth s (snd (start s u c))"
  by (simp add: same_auth_def ready_fired_def start_def fire_def send_message_def Let_def
      split: option.splits)

lemma same_auth_route: "same_auth s (snd (route s n f))"
  by (simp add: same_auth_def route_def)

lemma same_auth_event: "same_auth s (snd (event s f))"
  by (simp add: same_auth_def event_def)

lemma same_auth_ping: "same_auth s (snd (ping s cl u))"
  by (simp add: same_auth_def ready_fired_def ping_def send_message_def get_response_def
      Let_def split: option.splits)

lemma same_auth_wait_for: "same_auth s (snd (wait_for s fut))"
  by (simp add: same_auth_def wait_for_def split: future.splits)

lemma same_auth_ping_return: "same_auth s (snd (ping_return s fut))"
  using same_auth_wait_for [of s fut]
  by (cases "wait_for s fut") (auto simp: ping_return_def split: sum.splits)

lemma same_auth_request: "same_auth s (snd (request s rt src kw u))"
  by (simp add: same_auth_def ready_fired_def request_def send_message_def get_response_def
      Let_def split: option.splits)

lemma same_auth_inform: "same_auth s (snd (inform s d ds))"
  by (simp add: same_auth_def ready_fired_def inform_def send_message_def Let_def
      split: option.splits)

lemma same_auth_send_message: "same_auth s (snd (send_message s p))"
  by (simp add: same_auth_def)

lemma same_auth_fulfill_request: "same_auth s (snd (fulfill_request s m))"
  by (simp add: same_auth_def fulfill_request_def try_body_def except_clause_def fire_def
      Let_def split: route_field.splits option.splits outcome.splits)

lemma same_auth_dispatch: "same_auth s (snd (dispatch s m))"
  by (simp add: same_auth_def dispatch_def split: option.splits prod.splits)

lemma same_auth_transport:
  "same_auth s (case websocket s of None \<Rightarrow> s | Some ws \<Rightarrow> s\<lparr>websocket := Some st\<rparr>)"
  by (simp add: same_auth_def split: option.splits)

lemma on_message_body_authorized:
  "authorized s \<Longrightarrow> same_auth s (snd (on_message_body s r))"
  by (simp add: same_auth_def on_message_body_def fire_def Let_def
      split: recv.splits route_field.splits)

lemma on_message_body_ready_inv:
  "ready_inv s \<Longrightarrow> ready_inv (snd (on_message_body s r))"
  by (auto simp: ready_inv_def on_message_body_def fire_def Let_def
      split: recv.splits route_field.splits)

lemma on_message_authorized:
  "authorized s \<Longrightarrow> same_auth s (snd (on_message s rs))"
proof (induction rs arbitrary: s)
  case Nil
  then show ?case by (simp add: same_auth_def)
next
  case (Cons r rs)
  obtain st s' where b: "on_message_body s r = (st, s')" by (cases "on_message_body s r")
  with Cons.prems on_message_body_authorized [of s r] have s': "same_auth s s'" by simp
  show ?case
  proof (cases st)
    case Next
    with s' Cons.prems have "same_auth s' (snd (on_message s' rs))"
      by (intro Cons.IH) (simp add: same_auth_def)
    with s' b Next show ?thesis by (simp add: same_auth_def)
  qed (use b s' in simp_all)
qed

lemma on_message_ready_inv:
  "ready_inv s \<Longrightarrow> ready_inv (snd (on_message s rs))"
proof (induction rs arbitrary: s)
  case Nil
  then show ?case by simp
next
  case (Cons r rs)
  obtain st s' where b: "on_message_body s r = (st, s')" by (cases "on_message_body s r")
  with Cons.prems on_message_body_ready_inv [of s r] have s': "ready_inv s'" by simp
  show ?case
  proof (cases st)
    case Next
    with b Cons.IH [OF s'] show ?thesis by simp
  qed (use b s' in simp_all)
qed

lemma same_auth_ready_inv: "same_auth s s' \<Longrightarrow> ready_inv s \<Longrightarrow> ready_inv s'"
  by (simp add: same_auth_def ready_inv_def)

lemma exec_authorized: "authorized s \<Longrightarrow> same_auth s (exec c s)"
  by (cases c)
    (simp_all add: same_auth_start same_auth_route same_auth_event same_auth_ping
      same_auth_ping_return same_auth_request request_return_def same_auth_wait_for
      same_auth_inform same_auth_send_message same_auth_fulfill_request same_auth_dispatch
      on_message_authorized same_auth_transport)

lemma exec_ready_inv: "ready_inv s \<Longrightarrow> ready_inv (exec c s)"
proof (cases c)
  case (Run_on_message rs)
  assume "ready_inv s"
  with Run_on_message show ?thesis by (simp add: on_message_ready_inv)
qed (erule same_auth_ready_inv [rotated],
     simp add: same_auth_start same_auth_route same_auth_event same_auth_ping
      same_auth_ping_return same_auth_request request_return_def same_auth_wait_for
      same_auth_inform same_auth_send_message same_auth_fulfill_request same_auth_dispatch
      same_auth_transport)+

lemma fold_exec_authorized: "authorized s \<Longrightarrow> same_auth s (fold exec cs s)"
proof (induction cs arbitrary: s)
  case Nil
  then show ?case by (simp add: same_auth_def)
next
  case (Cons c cs)
  from Cons.prems have 1: "same_auth s (exec c s)" by (rule exec_authorized)
  with Cons.prems have "authorized (exec c s)" by (simp add: same_auth_def)
  then have "same_auth (exec c s) (fold exec cs (exec c s))" by (rule Cons.IH)
  with 1 show ?case by (simp add: same_auth_def)
qed

lemma fold_exec_ready_inv: "ready_inv s \<Longrightarrow> ready_inv (fold exec cs s)"
  by (induction cs arbitrary: s) (simp_all add: exec_ready_inv)

text \<open>
  Claim C10. Once \<open>authorized\<close> is true it stays true through every run of the client
  (calls of the interface, the client's coroutines, the transport closing or changing state,
  a new \<open>start\<close>), and no further "ready" notification is fired; from a new client, the
  branch of \<open>__on_message\<close> that sets \<open>authorized\<close> and fires "ready" runs at most once.
\<close>

theorem authorized_monotone:
  "(authorized s \<longrightarrow>
      authorized (fold exec cs s) \<and> ready_fired (fold exec cs s) = ready_fired s)
   \<and> ready_fired (fold exec cs (init name)) \<le> 1"
proof -
  have "ready_inv (init name)" by (simp add: ready_inv_def ready_fired_def init_def)
  then have "ready_inv (fold exec cs (init name))" by (rule fold_exec_ready_inv)
  then have "ready_fired (fold exec cs (init name)) \<le> 1" by (auto simp: ready_inv_def)
  then show ?thesis using fold_exec_authorized [of s cs] by (simp add: same_auth_def)
qed

theorem authorized_monotone_witness:
  "authorized ready_client
   \<and> authorized (fold exec reconnect_run ready_client)
   \<and> ready_fired (fold exec reconnect_run ready_client) = ready_fired ready_client
   \<and> ready_fired (fold exec reconnect_run (init ''A'')) \<le> 1"
  using authorized_monotone [of ready_client reconnect_run "''A''"]
  by (simp add: ready_client_eq)

section \<open>A request for an unknown route\<close>

text \<open>For a request whose route is absent or not registered, the body of the loop schedules
  the "Route not found" reply and executes \<open>return\<close>: whatever the transport yields
  afterwards is not read.\<close>

lemma on_message_unknown_route:
  assumes "env_type message = P_request"
      and "env_route message = Route_none
           \<or> (\<exists>rt. env_route message = Route_name rt \<and> routes s rt = None)"
  shows "on_message s (Recv message # rs)
           = (Return, send_message_task s (route_not_found s message))"
  using assms by (auto simp: on_message_body_def)

text \<open>
  Claim C1, evaluated on the code. Client \<open>A\<close> has sent its verification and receives a
  request for the route \<open>nope\<close>, which is not registered, and then the relay's success
  message. The client schedules the Error envelope "Route not found" with the correlation
  id \<open>u7\<close> of the request and invokes no handler, but the coroutine \<open>__on_message\<close> ends
  there with \<open>return\<close>: the success message is never processed and the client stays
  unauthorized, whereas the success message alone authorizes it.
\<close>

theorem unknown_route_ends_loop:
  "on_message started [Recv unknown_request, Recv success_msg]
     = (Return, started\<lparr>tasks := tasks started @
          [Task_send \<lparr>env_type = P_error, env_id = Some ''A'', env_destination = Some ''B'',
             env_route = Route_none, env_data = PStr ''Route not found'',
             env_uuid = Some ''u7'', env_traceback = Some ''Route not found''\<rparr>]\<rparr>)
   \<and> authorized (snd (on_message started [Recv unknown_request, Recv success_msg])) = False
   \<and> authorized (snd (on_message started [Recv success_msg])) = True"
  by (simp add: started_eq on_message_body_def unknown_request_def success_msg_def
      MessagePayload_def route_not_found_def send_message_task_def create_task_def fire_def
      accepts_call_def get_event_def init_events_def)

section \<open>Entries of the correlation table\<close>

lemma listeners_dispatch: "listeners (snd (dispatch s msg)) = listeners s"
  by (simp add: dispatch_def split: option.splits prod.splits)

lemma listeners_wait_for: "listeners (snd (wait_for s future)) = listeners s"
  by (simp add: wait_for_def split: future.splits)

lemma listeners_ping_return: "listeners (snd (ping_return s future)) = listeners s"
  using listeners_wait_for [of s future]
  by (cases "wait_for s future") (auto simp: ping_return_def split: sum.splits)

lemma listeners_on_message_body: "listeners (snd (on_message_body s r)) = listeners s"
  by (simp add: on_message_body_def fire_def Let_def split: recv.splits route_field.splits)

lemma listeners_on_message: "listeners (snd (on_message s rs)) = listeners s"
proof (induction rs arbitrary: s)
  case Nil
  show ?case by simp
next
  case (Cons r rs)
  obtain st s' where b: "on_message_body s r = (st, s')" by (cases "on_message_body s r")
  with listeners_on_message_body [of s r] have "listeners s' = listeners s" by simp
  with b Cons.IH [of s'] show ?case by (cases st) simp_all
qed

lemma listeners_fulfill_request: "listeners (snd (fulfill_request s m)) = listeners s"
  by (simp add: fulfill_request_def try_body_def except_clause_def fire_def Let_def
      split: route_field.splits option.splits outcome.splits)

lemma keys_dict_set: "fst ` set kvs \<subseteq> fst ` set (dict_set kvs k v)"
proof -
  have "set (map fst kvs) \<subseteq> set (map fst (dict_set kvs k v))"
    by (simp only: dict_set_keys) auto
  then show ?thesis by simp
qed

lemma keys_ping: "fst ` set (listeners s) \<subseteq> fst ` set (listeners (snd (ping s cl u)))"
  by (simp add: ping_def send_message_def get_response_def Let_def keys_dict_set
      split: option.splits)

lemma keys_request:
  "fst ` set (listeners s) \<subseteq> fst ` set (listeners (snd (request s rt src kw u)))"
  by (simp add: request_def send_message_def get_response_def Let_def keys_dict_set
      split: option.splits)

lemma keys_exec: "fst ` set (listeners s) \<subseteq> fst ` set (listeners (exec c s))"
proof (cases c)
  case (Call_ping cl u)
  then show ?thesis by (simp add: keys_ping)
next
  case (Call_request rt src kw u)
  then show ?thesis by (simp add: keys_request)
next
  case (Call_start u c)
  then show ?thesis
    by (simp add: start_def fire_def send_message_def Let_def split: option.splits)
next
  case (Call_inform d ds)
  then show ?thesis by (simp add: inform_def send_message_def Let_def split: option.splits)
next
  case (Transport st)
  then show ?thesis by (simp split: option.splits)
qed (simp_all add: route_def event_def listeners_ping_return request_return_def
      listeners_wait_for listeners_on_message listeners_fulfill_request listeners_dispatch)

lemma keys_fold_exec: "fst ` set (listeners s) \<subseteq> fst ` set (listeners (fold exec cs s))"
proof (induction cs arbitrary: s)
  case Nil
  show ?case by simp
next
  case (Cons c cs)
  from keys_exec [of s c] Cons.IH [of "exec c s"] show ?case by simp
qed

text \<open>
  Claim C2, as amended. Resolving a pending operation never removes its entry from the
  correlation table: \<open>_dispatch\<close> settles the future and leaves \<open>listeners\<close> as it was, and
  so does the caller of \<open>request\<close> or \<open>ping\<close> when it resumes, also when the timeout has
  expired; through every run of the client, each correlation id once registered stays a key
  of the table.
\<close>

theorem entries_never_removed:
  "listeners (snd (dispatch s msg)) = listeners s
   \<and> listeners (snd (request_return s future)) = listeners s
   \<and> listeners (snd (ping_return s future)) = listeners s
   \<and> fst ` set (listeners s) \<subseteq> fst ` set (listeners (fold exec cs s))"
  by (simp add: listeners_dispatch request_return_def listeners_wait_for listeners_ping_return
      keys_fold_exec)

text \<open>
  Claim C2 as stated fails. The request of client \<open>A\<close> is outstanding under \<open>u1\<close>. When the
  response arrives, \<open>_dispatch\<close> sets the result of the future and the entry for \<open>u1\<close> is
  still in the table; when instead the timeout expires, the caller gets \<open>TimeoutError\<close> and
  the entry for \<open>u1\<close> is still in the table.
\<close>

theorem resolved_entry_stays:
  "fst (dispatch waiting_client add_response) = None
   \<and> futures (snd (dispatch waiting_client add_response)) = [Result (PInt 5)]
   \<and> listeners (snd (dispatch waiting_client add_response)) = [(''u1'', (None, 0))]
   \<and> fst (request_return waiting_client 0) = Inl TimeoutError
   \<and> listeners (snd (request_return waiting_client 0)) = [(''u1'', (None, 0))]"
  by (simp add: waiting_client_eq ready_client_eq started_eq add_response_def MessagePayload_def
      dispatch_def resolve_def set_future_def request_return_def wait_for_def)

text \<open>The keys of the table are distinct in every state the client can reach.\<close>

lemma distinct_ping:
  "distinct (map fst (listeners s)) \<Longrightarrow> distinct (map fst (listeners (snd (ping s cl u))))"
  by (simp add: ping_def send_message_def get_response_def Let_def dict_set_distinct
      split: option.splits)

lemma distinct_request:
  "distinct (map fst (listeners s))
   \<Longrightarrow> distinct (map fst (listeners (snd (request s rt src kw u))))"
  by (simp add: request_def send_message_def get_response_def Let_def dict_set_distinct
      split: option.splits)

lemma distinct_exec:
  assumes "distinct (map fst (listeners s))"
  shows "distinct (map fst (listeners (exec c s)))"
proof (cases c)
  case (Call_ping cl u)
  with assms show ?thesis by (simp add: distinct_ping)
next
  case (Call_request rt src kw u)
  with assms show ?thesis by (simp add: distinct_request)
next
  case (Call_start u c)
  with assms show ?thesis
    by (simp add: start_def fire_def send_message_def Let_def split: option.splits)
next
  case (Call_inform d ds)
  with assms show ?thesis
    by (simp add: inform_def send_message_def Let_def split: option.splits)
next
  case (Transport st)
  with assms show ?thesis by (simp split: option.splits)
qed (use assms in \<open>simp_all add: route_def event_def listeners_ping_return request_return_def
      listeners_wait_for listeners_on_message listeners_fulfill_request listeners_dispatch\<close>)

lemma distinct_fold_exec:
  "distinct (map fst (listeners s)) \<Longrightarrow> distinct (map fst (listeners (fold exec cs s)))"
  by (induction cs arbitrary: s) (simp_all add: distinct_exec)

lemma distinct_reachable: "distinct (map fst (listeners (fold exec cs (init name))))"
  by (rule distinct_fold_exec) (simp add: init_def)

section \<open>The value of a ping\<close>

lemma ping_Inr:
  assumes "ping s cl uuid = (Inr future, s1)"
  shows "future = length (futures s) \<and> futures s1 = futures s @ [Pending]
         \<and> listeners s1 = dict_set (listeners s) uuid (None, length (futures s))"
  using assms
  by (auto simp: ping_def send_message_def get_response_def Let_def
      split: if_splits option.splits)

text \<open>
  Claim C3, as amended. Let \<open>ping\<close> have passed its checks, sent the Ping envelope and
  registered its future. If the caller is resumed with nothing having resolved the future
  (the timeout expired), the call raises \<open>TimeoutError\<close>. If the Dispatcher has resolved it
  with a non-Error envelope of that correlation id whose payload is a JSON object, the call
  returns the payload's entry for \<open>success\<close>, and \<open>False\<close> when there is none; if an Error
  envelope resolved it, the call raises \<open>ClientRuntimeError\<close> with the payload.
\<close>

theorem ping_outcome:
  assumes "ping s cl uuid = (Inr future, s1)" and "distinct (map fst (listeners s))"
  shows "fst (ping_return s1 future) = Inl TimeoutError
         \<and> (env_uuid msg = Some uuid \<and> env_type msg \<noteq> P_error \<and> env_data msg = PDict kvs
            \<longrightarrow> fst (ping_return (snd (dispatch s1 msg)) future)
                  = Inr (case map_of kvs ''success'' of Some v \<Rightarrow> v | None \<Rightarrow> PBool False))
         \<and> (env_uuid msg = Some uuid \<and> env_type msg = P_error
            \<longrightarrow> fst (ping_return (snd (dispatch s1 msg)) future)
                  = Inl (ClientRuntimeError (env_data msg)))"
proof -
  from assms(1) have f: "future = length (futures s)"
    and fs: "futures s1 = futures s @ [Pending]"
    and ls: "listeners s1 = dict_set (listeners s) uuid (None, length (futures s))"
    using ping_Inr by blast+
  have pend: "future < length (futures s1)" "futures s1 ! future = Pending"
    by (simp_all add: f fs)
  then have 1: "fst (ping_return s1 future) = Inl TimeoutError"
    by (simp add: ping_return_def wait_for_def)
  have d: "distinct (map fst (listeners s1))"
    using assms(2) by (simp add: ls dict_set_distinct)
  have m: "(uuid, (None, future)) \<in> set (listeners s1)"
    by (simp add: ls f dict_set_mem)
  have 2: "fst (ping_return (snd (dispatch s1 msg)) future)
             = Inr (case map_of kvs ''success'' of Some v \<Rightarrow> v | None \<Rightarrow> PBool False)"
    if "env_uuid msg = Some uuid \<and> env_type msg \<noteq> P_error \<and> env_data msg = PDict kvs"
    using that pend dispatch_found [OF _ d m pend, of msg]
    by (simp add: ping_return_def wait_for_def py_get_def split: option.splits)
  have 3: "fst (ping_return (snd (dispatch s1 msg)) future)
             = Inl (ClientRuntimeError (env_data msg))"
    if "env_uuid msg = Some uuid \<and> env_type msg = P_error"
    using that pend dispatch_found [OF _ d m pend, of msg]
    by (simp add: ping_return_def wait_for_def)
  from 1 2 3 show ?thesis by blast
qed

theorem ping_outcome_witness:
  "fst (ping_return pinging_client 0) = Inl TimeoutError
   \<and> fst (ping_return (snd (dispatch pinging_client pong)) 0) = Inr (PBool True)
   \<and> fst (ping_return (snd (dispatch pinging_client (pong\<lparr>env_data := PDict []\<rparr>))) 0)
       = Inr (PBool False)"
  using ping_outcome [where s = ready_client and cl = "Some ''B''" and uuid = "''p1''"
          and future = 0 and ?s1.0 = pinging_client and msg = pong
          and kvs = "[(''success'', PBool True)]"]
        ping_outcome [where s = ready_client and cl = "Some ''B''" and uuid = "''p1''"
          and future = 0 and ?s1.0 = pinging_client and msg = "pong\<lparr>env_data := PDict []\<rparr>"
          and kvs = "[]"]
  by (simp add: pinging_client_def ready_client_eq started_eq ping_def send_message_def
      get_response_def MessagePayload_def pong_def)

text \<open>
  Claim C3 as stated fails. Client \<open>A\<close> pings \<open>B\<close>; the call is suspended on the future
  \<open>0\<close>. No response arrives and the timeout expires: the call does not return \<open>False\<close>, it
  raises \<open>TimeoutError\<close>.
\<close>

theorem ping_timeout_raises:
  "ping ready_client (Some ''B'') ''p1'' = (Inr 0, pinging_client)
   \<and> ping_return pinging_client 0 = (Inl TimeoutError, pinging_client\<lparr>futures := [Cancelled]\<rparr>)"
  by (simp add: pinging_client_def ready_client_eq started_eq ping_def send_message_def
      get_response_def MessagePayload_def ping_return_def wait_for_def)

section \<open>Leaving the hold\<close>

lemma held_listener_eq:
  "held_listener =
     held_client\<lparr>events := init_events(''on_winerp_ready'' \<mapsto> Some ready_with_parameter)\<rparr>"
  by (simp add: held_listener_def event_def held_client_eq started_eq init_events_def
      ready_with_parameter_def)

text \<open>
  Claim C4, as amended. After the Dispatcher has processed what the transport yielded, the
  client is on hold exactly if: the envelope was the Error "Already authorized."; or the
  client was on hold before and the envelope was not a success message that arrived while
  the client was unauthorized and whose "ready" notification could be called. So only a
  success message that arrives while the client is not yet authorized, with no "ready"
  handler registered or one that takes no argument, clears the hold (and authorizes the
  client); every other envelope, and a success message to an authorized client, leaves the
  hold as it is.
\<close>

theorem on_hold_after_message:
  "on_hold (snd (on_message_body s r)) =
     (case r of
        Recv message \<Rightarrow>
          if env_type message = P_success \<and> \<not> authorized s
             \<and> accepts_call s ''on_winerp_ready'' 0
          then False
          else if env_type message = P_error \<and> env_data message = PStr ''Already authorized.''
          then True
          else on_hold s
      | _ \<Rightarrow> on_hold s)
   \<and> authorized (snd (on_message_body s r)) =
     (authorized s
      \<or> (case r of
            Recv message \<Rightarrow> env_type message = P_success \<and> accepts_call s ''on_winerp_ready'' 0
          | _ \<Rightarrow> False))"
  by (auto simp: on_message_body_def fire_def Let_def split: recv.splits route_field.splits)

text \<open>
  Claim C4 as stated fails. The authorized client \<open>A\<close> receives "Already authorized." and
  is on hold; the success message that follows leaves it on hold. The unauthorized client
  on hold receives a Ping envelope, which is no error message, and stays on hold. And with
  a "ready" handler that takes a parameter registered, the success message makes the
  unauthorized client on hold raise \<open>TypeError\<close> in the call of the handler, before the hold
  is cleared: the Dispatcher ends and the client is as it was, on hold and unauthorized.
\<close>

theorem hold_survives_success:
  "on_hold (snd (on_message ready_client [Recv already_authorized]))
   \<and> authorized (snd (on_message ready_client [Recv already_authorized]))
   \<and> on_hold (snd (on_message ready_client [Recv already_authorized, Recv success_msg]))
   \<and> on_hold held_client
   \<and> on_hold (snd (on_message held_client [Recv pong]))
   \<and> on_message held_listener [Recv success_msg]
       = (Raise (TypeError ''on_winerp_ready() does not take the arguments given''),
          held_listener)
   \<and> on_hold held_listener
   \<and> authorized held_listener = False"
  by (simp add: ready_client_eq held_client_eq held_listener_eq started_eq on_message_body_def
      fire_def accepts_call_def get_event_def init_events_def ready_with_parameter_def
      already_authorized_def success_msg_def pong_def MessagePayload_def)

section \<open>The reply of the Request Invoker\<close>



lemma sends_append [simp]: "sends (ts @ us) = sends ts @ sends us"
  by (induction ts rule: sends.induct) simp_all






section \<open>Registering under a correlation id in use\<close>

text \<open>
  Claim C9, as amended. \<open>__get_response\<close> never fails: it makes a new pending future and
  stores it under the correlation id. If the id is already a key of the table, the entry
  that was there is replaced by the new one and the table keeps one entry for the id; if
  not, the new entry is added.
\<close>

theorem get_response_overwrites:
  "fst (get_response s uuid) = length (futures s)
   \<and> futures (snd (get_response s uuid)) = futures s @ [Pending]
   \<and> map_of (listeners (snd (get_response s uuid))) uuid = Some (None, length (futures s))
   \<and> map fst (listeners (snd (get_response s uuid))) =
       (if uuid \<in> fst ` set (listeners s) then map fst (listeners s)
        else map fst (listeners s) @ [uuid])"
  by (simp add: dict_set_keys dict_set_lookup)

text \<open>
  Claim C9 as stated fails. The request of client \<open>A\<close> is outstanding under \<open>u1\<close>, with the
  future \<open>0\<close>. Registering under \<open>u1\<close> again raises nothing and puts the new future \<open>1\<close> in
  the place of the existing entry; a second \<open>request\<close> that draws the same id succeeds.
\<close>

theorem duplicate_id_overwrites:
  "listeners waiting_client = [(''u1'', (None, 0))]
   \<and> get_response waiting_client ''u1''
       = (1, waiting_client\<lparr>futures := [Pending, Pending], listeners := [(''u1'', (None, 1))]\<rparr>)
   \<and> fst (request waiting_client (Some ''add'') (Some ''B'') [] ''u1'') = Inr 1"
  by (simp add: waiting_client_eq ready_client_eq started_eq get_response_def request_def
      falsy_def send_message_def MessagePayload_def)

end
